theory Spec2Isabelle
  imports Complex_Main
begin

section \<open>Recipe interpreter of \<^verbatim>\<open>epi-parser.py\<close>: shallow embedding\<close>

text \<open>
  The program reads two line-oriented text files. A file is modelled by the list of its
  lines, a Python \<^verbatim>\<open>str\<close> by \<^typ>\<open>string\<close> over ASCII characters, a Python
  \<^verbatim>\<open>float\<close> by the binary64 value it holds (a rational number, infinity or
  NaN, every operation rounded to the nearest binary64 value), a Python exception by a
  value of \<open>py_error\<close> on the left of a sum.
\<close>

subsection \<open>Python primitives\<close>

datatype py_error = KeyError | TypeError | ValueError | ZeroDivisionError
  | AttributeError | IndexError | OverflowError

definition digit_chars :: string where
  "digit_chars = ''0123456789''"

definition lower_chars :: string where
  "lower_chars = ''abcdefghijklmnopqrstuvwxyz''"

definition upper_chars :: string where
  "upper_chars = ''ABCDEFGHIJKLMNOPQRSTUVWXYZ''"

definition space_chars :: string where
  "space_chars = [CHR 0x20, CHR 0x09, CHR 0x0A, CHR 0x0B, CHR 0x0C, CHR 0x0D,
     CHR 0x1C, CHR 0x1D, CHR 0x1E, CHR 0x1F]"

text \<open>The character classes \<^verbatim>\<open>\d\<close>, \<^verbatim>\<open>[\d.]\<close>, \<^verbatim>\<open>[a-z]\<close>, \<^verbatim>\<open>\w\<close> and \<^verbatim>\<open>\s\<close>.\<close>

definition is_digit :: "char \<Rightarrow> bool" where
  "is_digit c = (c \<in> set digit_chars)"

definition is_digit_dot :: "char \<Rightarrow> bool" where
  "is_digit_dot c = (is_digit c \<or> c = CHR ''.'')"

definition is_lower :: "char \<Rightarrow> bool" where
  "is_lower c = (c \<in> set lower_chars)"

definition is_word :: "char \<Rightarrow> bool" where
  "is_word c = (c \<in> set lower_chars \<or> c \<in> set upper_chars \<or> is_digit c \<or> c = CHR ''_'')"

definition is_space :: "char \<Rightarrow> bool" where
  "is_space c = (c \<in> set space_chars)"

text \<open>\<^verbatim>\<open>str.strip()\<close>, \<^verbatim>\<open>str.startswith(p)\<close>, \<^verbatim>\<open>str.lower()\<close>.\<close>

definition strip :: "string \<Rightarrow> string" where
  "strip s = rev (dropWhile is_space (rev (dropWhile is_space s)))"

definition startswith :: "string \<Rightarrow> string \<Rightarrow> bool" where
  "startswith s p = (take (length p) s = p)"

definition lower_char :: "char \<Rightarrow> char" where
  "lower_char c = (case map_of (zip upper_chars lower_chars) c of Some d \<Rightarrow> d | None \<Rightarrow> c)"

definition lower :: "string \<Rightarrow> string" where
  "lower s = map lower_char s"

text \<open>\<^verbatim>\<open>s.split(c)\<close> for a one-character separator: never empty.\<close>

fun split_on :: "char \<Rightarrow> string \<Rightarrow> string list" where
  "split_on c [] = [[]]"
| "split_on c (x # xs) =
     (if x = c then [] # split_on c xs
      else (case split_on c xs of [] \<Rightarrow> [[x]] | p # ps \<Rightarrow> (x # p) # ps))"

text \<open>\<^verbatim>\<open>sep.join(xs)\<close>.\<close>

fun join :: "string \<Rightarrow> string list \<Rightarrow> string" where
  "join sep [] = []"
| "join sep [x] = x"
| "join sep (x # y # ys) = x @ sep @ join sep (y # ys)"

text \<open>\<^verbatim>\<open>re.findall(r'\w+', s)\<close>: the maximal runs of word characters, left to right.
  The first argument is the run being read.\<close>

fun findall_word :: "string \<Rightarrow> string \<Rightarrow> string list" where
  "findall_word cur [] = (if cur = [] then [] else [cur])"
| "findall_word cur (x # xs) =
     (if is_word x then findall_word (cur @ [x]) xs
      else (if cur = [] then [] else [cur]) @ findall_word [] xs)"

text \<open>The value of a string of ASCII digits, as \<^verbatim>\<open>int(s)\<close> reads it.\<close>

definition digit_val :: "char \<Rightarrow> int" where
  "digit_val c =
     (case map_of (zip digit_chars [0, 1, 2, 3, 4, 5, 6, 7, 8, 9]) c of
        Some d \<Rightarrow> d | None \<Rightarrow> 0)"

definition dec_val :: "string \<Rightarrow> int" where
  "dec_val s = foldl (\<lambda>a c. 10 * a + digit_val c) 0 s"

subsection \<open>Python floats\<close>

text \<open>
  A \<^verbatim>\<open>float\<close> is a binary64 number. The program forms no negative number (its
  patterns \<^verbatim>\<open>[\d.]+\<close> and \<^verbatim>\<open>\d+\<close> admit no sign, and it only multiplies,
  divides and rounds), so the values are the non-negative finite ones, held as exact
  rationals, positive infinity and NaN.
\<close>

datatype pyfloat = Finite rat | Inf | NaN

text \<open>\<open>ilog2 n\<close> is the position of the leading bit of \<open>n \<ge> 1\<close>, and \<open>p2 e\<close> is
  \<open>2 ^ e\<close> for \<open>e \<ge> 0\<close>, by repeated squaring.\<close>

function ilog2 :: "int \<Rightarrow> int" where
  "ilog2 n = (if n < 2 then 0 else 1 + ilog2 (n div 2))"
  by pat_completeness auto
termination
  by (relation "measure nat") auto

declare ilog2.simps [simp del]

function p2 :: "int \<Rightarrow> int" where
  "p2 e = (if e \<le> 0 then 1 else if even e then (let h = p2 (e div 2) in h * h)
           else 2 * p2 (e - 1))"
  by pat_completeness auto
termination
  by (relation "measure nat") auto

declare p2.simps [simp del]

definition pow2 :: "int \<Rightarrow> rat" where
  "pow2 e = (if 0 \<le> e then of_int (p2 e) else 1 / of_int (p2 (- e)))"

text \<open>The binary exponent of a positive rational: \<open>2 ^ lg q \<le> q < 2 ^ (lg q + 1)\<close>.\<close>

definition lg :: "rat \<Rightarrow> int" where
  "lg q = (if 1 \<le> q then ilog2 \<lfloor>q\<rfloor>
           else (let k = ilog2 \<lfloor>1 / q\<rfloor> in
                 if q * of_int (p2 k) = 1 then - k else - k - 1))"

text \<open>The nearest integer, a tie to the even one.\<close>

definition rne :: "rat \<Rightarrow> int" where
  "rne y = (let f = \<lfloor>y\<rfloor>; d = y - of_int f in
            if d < 1 / 2 then f else if 1 / 2 < d then f + 1
            else if even f then f else f + 1)"

text \<open>
  The binary64 value nearest to a non-negative rational, a tie to the even significand:
  53 significant bits, the last one no finer than \<open>2 ^ - 1074\<close> (the subnormal numbers),
  and infinity when the rounded value reaches \<open>2 ^ 1024\<close>.
\<close>

definition fl :: "rat \<Rightarrow> pyfloat" where
  "fl q = (if q \<le> 0 then Finite 0 else
       (let e = max (lg q - 52) (- 1074); x = of_int (rne (q / pow2 e)) * pow2 e in
        if pow2 1024 \<le> x then Inf else Finite x))"

text \<open>\<^verbatim>\<open>float(s)\<close> on the strings the program passes to it, which are groups
  \<^verbatim>\<open>[\d.]+\<close>: digits with at most one dot and at least one digit give the binary64
  value nearest to the decimal number; anything else raises \<^verbatim>\<open>ValueError\<close>
  (\<open>None\<close>).\<close>

definition py_float :: "string \<Rightarrow> pyfloat option" where
  "py_float s =
     (let ip = takeWhile is_digit s; r = dropWhile is_digit s in
      if r = [] then (if ip = [] then None else Some (fl (of_int (dec_val ip))))
      else if hd r = CHR ''.'' \<and> list_all is_digit (tl r) then
        (if ip = [] \<and> tl r = [] then None
         else Some (fl (of_int (dec_val ip)
                        + of_int (dec_val (tl r)) / of_int (10 ^ length (tl r)))))
      else None)"

text \<open>\<^verbatim>\<open>x * y\<close> and \<^verbatim>\<open>x / y\<close> on floats. Python raises
  \<^verbatim>\<open>ZeroDivisionError\<close> for a zero divisor, whatever the dividend.\<close>

fun float_mul :: "pyfloat \<Rightarrow> pyfloat \<Rightarrow> pyfloat" where
  "float_mul (Finite a) (Finite b) = fl (a * b)"
| "float_mul (Finite a) Inf = (if a = 0 then NaN else Inf)"
| "float_mul Inf (Finite b) = (if b = 0 then NaN else Inf)"
| "float_mul Inf Inf = Inf"
| "float_mul NaN y = NaN"
| "float_mul x NaN = NaN"

fun float_div :: "pyfloat \<Rightarrow> pyfloat \<Rightarrow> py_error + pyfloat" where
  "float_div (Finite a) (Finite b) = (if b = 0 then Inl ZeroDivisionError else Inr (fl (a / b)))"
| "float_div Inf (Finite b) = (if b = 0 then Inl ZeroDivisionError else Inr Inf)"
| "float_div NaN (Finite b) = (if b = 0 then Inl ZeroDivisionError else Inr NaN)"
| "float_div (Finite a) Inf = Inr (Finite 0)"
| "float_div Inf Inf = Inr NaN"
| "float_div NaN Inf = Inr NaN"
| "float_div x NaN = Inr NaN"

text \<open>\<^verbatim>\<open>round(x, 2)\<close> on a float: infinity and NaN round to themselves; a finite
  value is rounded, exactly, to the nearest multiple of 1/100 (a tie to the even one),
  and the result is the binary64 value nearest to that decimal number.\<close>

fun round2 :: "pyfloat \<Rightarrow> pyfloat" where
  "round2 (Finite x) = fl (of_int (rne (x * 100)) / 100)"
| "round2 Inf = Inf"
| "round2 NaN = NaN"

text \<open>A number held in a dictionary is an \<^verbatim>\<open>int\<close> or a \<^verbatim>\<open>float\<close>.
  \<^verbatim>\<open>x *= n\<close> with an \<^verbatim>\<open>int\<close> \<open>n\<close> is exact on an \<^verbatim>\<open>int\<close>; on a
  \<^verbatim>\<open>float\<close> it converts \<open>n\<close> to the nearest float first and raises
  \<^verbatim>\<open>OverflowError\<close> when \<open>n\<close> is beyond the finite range.\<close>

datatype number = PyInt int | PyFloat pyfloat

fun number_mul_int :: "number \<Rightarrow> int \<Rightarrow> py_error + number" where
  "number_mul_int (PyInt a) n = Inr (PyInt (a * n))"
| "number_mul_int (PyFloat x) n =
     (case fl (of_int n) of
        Inf \<Rightarrow> Inl OverflowError
      | y \<Rightarrow> Inr (PyFloat (float_mul x y)))"

subsection \<open>The definitions file: \<^verbatim>\<open>parse_lay_file\<close>\<close>

record lay_entry =
  shutters :: "string list"
  rate :: "pyfloat option"

type_synonym lay_data = "string \<rightharpoonup> lay_entry"

text \<open>\<^verbatim>\<open>re.search(r'rate\(([\d.]+)\)', line)\<close>: the group of the leftmost match.
  The class \<^verbatim>\<open>[\d.]\<close> excludes the closing parenthesis, so only the maximal run can
  match.\<close>

definition rate_match_at :: "string \<Rightarrow> string option" where
  "rate_match_at s =
     (if startswith s ''rate('' then
        (let r = drop 5 s; v = takeWhile is_digit_dot r in
         if v \<noteq> [] \<and> take 1 (dropWhile is_digit_dot r) = '')'' then Some v else None)
      else None)"

fun rate_search :: "string \<Rightarrow> string option" where
  "rate_search [] = rate_match_at []"
| "rate_search (x # xs) =
     (case rate_match_at (x # xs) of Some v \<Rightarrow> Some v | None \<Rightarrow> rate_search xs)"

text \<open>The truth value of \<^verbatim>\<open>current_layer\<close>: \<^verbatim>\<open>None\<close> and the empty string are
  false.\<close>

definition truthy :: "string option \<Rightarrow> bool" where
  "truthy cur = (case cur of None \<Rightarrow> False | Some c \<Rightarrow> c \<noteq> [])"

text \<open>\<^verbatim>\<open>line.split("(")[1].split(")")[0]\<close>: the name that a
  \<^verbatim>\<open>definelayer\<close> line defines. An index out of range raises
  \<^verbatim>\<open>IndexError\<close>.\<close>

definition definelayer_name :: "string \<Rightarrow> py_error + string" where
  "definelayer_name line =
     (case split_on (CHR ''('') line of
        _ # p # _ \<Rightarrow>
          (case split_on (CHR '')'') p of
             c # _ \<Rightarrow> Inr c
           | [] \<Rightarrow> Inl IndexError)
      | _ \<Rightarrow> Inl IndexError)"

text \<open>One iteration of the loop of \<^verbatim>\<open>parse_lay_file\<close>, on the state
  (\<^verbatim>\<open>layers\<close>, \<^verbatim>\<open>current_layer\<close>).\<close>

definition lay_step :: "lay_data \<times> string option \<Rightarrow> string \<Rightarrow> py_error + lay_data \<times> string option" where
  "lay_step st raw =
     (let layers = fst st; cur = snd st; line = strip raw in
      if startswith line ''definelayer('' then
        (case definelayer_name line of
           Inl e \<Rightarrow> Inl e
         | Inr c \<Rightarrow> Inr (layers(c \<mapsto> \<lparr>shutters = [], rate = None\<rparr>), Some c))
      else if startswith line ''rate('' \<and> truthy cur then
        (case rate_search line of
           None \<Rightarrow> Inl AttributeError
         | Some v \<Rightarrow>
             (case py_float v of
                None \<Rightarrow> Inl ValueError
              | Some r \<Rightarrow>
                  (case layers (the cur) of
                     None \<Rightarrow> Inl KeyError
                   | Some e \<Rightarrow> Inr (layers(the cur \<mapsto> e\<lparr>rate := Some r\<rparr>), cur))))
      else if startswith line ''open('' \<and> truthy cur then
        (case layers (the cur) of
           None \<Rightarrow> Inl KeyError
         | Some e \<Rightarrow>
             Inr (layers(the cur \<mapsto> e\<lparr>shutters := drop 1 (findall_word [] line)\<rparr>), cur))
      else if startswith line ''enddefine'' then Inr (layers, None)
      else Inr st)"

fun lay_loop :: "lay_data \<times> string option \<Rightarrow> string list \<Rightarrow> py_error + lay_data \<times> string option" where
  "lay_loop st [] = Inr st"
| "lay_loop st (l # ls) = (case lay_step st l of Inl e \<Rightarrow> Inl e | Inr st' \<Rightarrow> lay_loop st' ls)"

definition parse_lay_file :: "string list \<Rightarrow> py_error + lay_data" where
  "parse_lay_file file = (case lay_loop (Map.empty, None) file of Inl e \<Rightarrow> Inl e | Inr st \<Rightarrow> Inr (fst st))"

subsection \<open>Layer records\<close>

text \<open>
  A layer is a Python dictionary. The keys \<^verbatim>\<open>"Repeat"\<close> and
  \<^verbatim>\<open>"Growth Rate (nm/h)"\<close> are present in some layers only, so these two fields are
  options. The value of \<^verbatim>\<open>"Shutters"\<close> is a list in an idle layer and a string
  elsewhere.
\<close>

datatype shutters_value = ShutterList "string list" | ShutterStr string

record layer =
  Material :: string
  Composition :: string
  Thickness_nm :: number
  Time_s :: number
  Shutters :: shutters_value
  Repeat :: "int option"
  Growth_Rate :: "number option"

text \<open>An element of \<^verbatim>\<open>layer_stack\<close>: a layer, or the dictionary
  \<^verbatim>\<open>{"Group": True, "Repeat": n, "Layers": [...]}\<close> of a loop.\<close>

datatype item = Single layer | Group int "layer list"

subsection \<open>One program line: \<^verbatim>\<open>parse_layer_line\<close>\<close>

text \<open>\<^verbatim>\<open>re.match(r'layer\((\w+),([\d.]+)([a-z]+)\)(.*)', line)\<close>: the four groups. Each
  repeated class excludes the character that must follow it, so only the maximal run can
  match; \<^verbatim>\<open>.\<close> stops at a newline.\<close>

definition layer_match :: "string \<Rightarrow> (string \<times> string \<times> string \<times> string) option" where
  "layer_match s =
     (if startswith s ''layer('' then
        (let r1 = drop 6 s; material = takeWhile is_word r1; r2 = dropWhile is_word r1 in
         if material \<noteq> [] \<and> take 1 r2 = '','' then
           (let r3 = drop 1 r2; v = takeWhile is_digit_dot r3; r4 = dropWhile is_digit_dot r3;
                unit = takeWhile is_lower r4; r5 = dropWhile is_lower r4 in
            if v \<noteq> [] \<and> unit \<noteq> [] \<and> take 1 r5 = '')''
            then Some (material, v, unit, takeWhile (\<lambda>c. c \<noteq> CHR 0x0A) (drop 1 r5))
            else None)
         else None)
      else None)"

text \<open>One alternative \<^verbatim>\<open>El\d+GaAs\<close> of the composition pattern, at the start of
  \<open>s\<close>.\<close>

definition graded_at :: "string \<Rightarrow> string \<Rightarrow> string option" where
  "graded_at el s =
     (if startswith s el then
        (let r = drop (length el) s; d = takeWhile is_digit r in
         if d \<noteq> [] \<and> startswith (dropWhile is_digit r) ''GaAs''
         then Some (el @ d @ ''GaAs'') else None)
      else None)"

text \<open>\<^verbatim>\<open>(Al\d+GaAs|In\d+GaAs|AlAs|GaAs)\<close> at the start of \<open>s\<close>: the alternatives
  in order.\<close>

definition composition_at :: "string \<Rightarrow> string option" where
  "composition_at s =
     (case graded_at ''Al'' s of Some m \<Rightarrow> Some m | None \<Rightarrow>
      (case graded_at ''In'' s of Some m \<Rightarrow> Some m | None \<Rightarrow>
       if startswith s ''AlAs'' then Some ''AlAs''
       else if startswith s ''GaAs'' then Some ''GaAs'' else None))"

text \<open>\<^verbatim>\<open>re.search\<close> of that pattern: the leftmost match.\<close>

fun composition_search :: "string \<Rightarrow> string option" where
  "composition_search [] = None"
| "composition_search (x # xs) =
     (case composition_at (x # xs) of Some m \<Rightarrow> Some m | None \<Rightarrow> composition_search xs)"

text \<open>The body of \<^verbatim>\<open>parse_layer_line\<close> from the idle test on (lines 83 to 111), with
  the value already a number. \<open>Inr None\<close> is the return value \<^verbatim>\<open>None\<close>.\<close>

definition resolve_layer ::
  "string \<Rightarrow> pyfloat \<Rightarrow> string \<Rightarrow> string \<Rightarrow> lay_data \<Rightarrow> py_error + layer option" where
  "resolve_layer material v unit composition lay =
     (if material = ''shutterzu'' then
        Inr (Some \<lparr>Material = ''Idle'', Composition = ''None'', Thickness_nm = PyInt 0,
                   Time_s = (if unit = ''s'' then PyFloat v else PyInt 0),
                   Shutters = ShutterList [], Repeat = None, Growth_Rate = Some (PyInt 0)\<rparr>)
      else
        (case lay material of
           None \<Rightarrow> Inl KeyError
         | Some e \<Rightarrow>
             (let sh = join '', '' (shutters e) in
              if unit = ''nm'' then
                (case rate e of
                   None \<Rightarrow> Inl TypeError
                 | Some r \<Rightarrow>
                     (case float_div (float_mul v (Finite 3600)) r of
                        Inl err \<Rightarrow> Inl err
                      | Inr time_s \<Rightarrow>
                          Inr (Some \<lparr>Material = material, Composition = composition,
                                 Thickness_nm = PyFloat (round2 v),
                                 Time_s = PyFloat (round2 time_s),
                                 Shutters = ShutterStr sh, Repeat = Some 1,
                                 Growth_Rate = None\<rparr>)))
              else if unit = ''s'' then
                (case rate e of
                   None \<Rightarrow> Inl TypeError
                 | Some r \<Rightarrow>
                     (case float_div (float_mul r v) (Finite 3600) of
                        Inl err \<Rightarrow> Inl err
                      | Inr thickness \<Rightarrow>
                          Inr (Some \<lparr>Material = material, Composition = composition,
                                 Thickness_nm = PyFloat (round2 thickness),
                                 Time_s = PyFloat (round2 v),
                                 Shutters = ShutterStr sh, Repeat = Some 1,
                                 Growth_Rate = None\<rparr>)))
              else Inr None)))"

definition parse_layer_line :: "string \<Rightarrow> lay_data \<Rightarrow> py_error + layer option" where
  "parse_layer_line line lay =
     (case layer_match line of
        None \<Rightarrow> Inr None
      | Some (material, value, unit, comment) \<Rightarrow>
          (let composition =
                 (case composition_search comment of Some m \<Rightarrow> m | None \<Rightarrow> ''Unknown'') in
           case py_float value of
             None \<Rightarrow> Inl ValueError
           | Some v \<Rightarrow> resolve_layer material v unit composition lay))"

subsection \<open>The program file: \<^verbatim>\<open>parse_epi_file_with_loops\<close>\<close>

text \<open>\<^verbatim>\<open>re.match(r'for\((\w+),\s*(\d+),\s*([\d.]+)\)', line)\<close>: the three groups.\<close>

definition for_match :: "string \<Rightarrow> (string \<times> string \<times> string) option" where
  "for_match s =
     (if startswith s ''for('' then
        (let r1 = drop 4 s; var = takeWhile is_word r1; r2 = dropWhile is_word r1 in
         if var \<noteq> [] \<and> take 1 r2 = '','' then
           (let r3 = dropWhile is_space (drop 1 r2);
                n = takeWhile is_digit r3; r4 = dropWhile is_digit r3 in
            if n \<noteq> [] \<and> take 1 r4 = '','' then
              (let r5 = dropWhile is_space (drop 1 r4);
                   step = takeWhile is_digit_dot r5; r6 = dropWhile is_digit_dot r5 in
               if step \<noteq> [] \<and> take 1 r6 = '')'' then Some (var, n, step) else None)
            else None)
         else None)
      else None)"

definition is_next :: "string \<Rightarrow> bool" where
  "is_next raw = startswith (strip raw) ''next(''"

text \<open>The loop over the lines of a block (lines 43 to 46): the layers of the lines that
  resolve; the first exception ends it.\<close>

fun parse_block :: "string list \<Rightarrow> lay_data \<Rightarrow> py_error + layer list" where
  "parse_block [] lay = Inr []"
| "parse_block (bl # bls) lay =
     (case parse_layer_line bl lay of
        Inl e \<Rightarrow> Inl e
      | Inr parsed \<Rightarrow>
          (case parse_block bls lay of
             Inl e \<Rightarrow> Inl e
           | Inr ls \<Rightarrow> Inr ((case parsed of None \<Rightarrow> [] | Some l \<Rightarrow> [l]) @ ls)))"

text \<open>The \<^verbatim>\<open>while i < len(lines)\<close> loop (lines 30 to 56), on the lines from index
  \<open>i\<close> on and the stack built so far. After a block the index stands on the closing
  line, which the \<^verbatim>\<open>i += 1\<close> at the end of the iteration skips.\<close>

function epi_loop :: "string list \<Rightarrow> lay_data \<Rightarrow> item list \<Rightarrow> py_error + item list" where
  "epi_loop [] lay layer_stack = Inr layer_stack"
| "epi_loop (raw # rest) lay layer_stack =
     (let line = strip raw in
      if startswith line ''for('' then
        (case for_match line of
           None \<Rightarrow> epi_loop rest lay layer_stack
         | Some (var, iterations, step) \<Rightarrow>
             (case parse_block (map strip (takeWhile (\<lambda>l. \<not> is_next l) rest)) lay of
                Inl e \<Rightarrow> Inl e
              | Inr block_layers \<Rightarrow>
                  epi_loop (drop 1 (dropWhile (\<lambda>l. \<not> is_next l) rest)) lay
                    (layer_stack @ [Group (dec_val iterations) block_layers])))
      else if startswith line ''layer('' then
        (case parse_layer_line line lay of
           Inl e \<Rightarrow> Inl e
         | Inr None \<Rightarrow> epi_loop rest lay layer_stack
         | Inr (Some parsed) \<Rightarrow> epi_loop rest lay (layer_stack @ [Single parsed]))
      else epi_loop rest lay layer_stack)"
  by pat_completeness auto
termination
  by (relation "measure (\<lambda>(ls, lay, st). length ls)")
     (auto intro: le_imp_less_Suc order_trans [OF diff_le_self length_dropWhile_le])

text \<open>\<^verbatim>\<open>l.get("Material", "")\<close> on an element of the stack: the dictionary of a loop
  has no such key.\<close>

fun get_Material :: "item \<Rightarrow> string" where
  "get_Material (Single l) = Material l"
| "get_Material (Group n ls) = []"

definition substrate_layer :: layer where
  "substrate_layer = \<lparr>Material = ''Substrate'', Composition = [], Thickness_nm = PyInt 500,
     Time_s = PyInt 0, Shutters = ShutterStr [], Repeat = Some 1, Growth_Rate = None\<rparr>"

text \<open>Lines 58 to 66: the substrate is put in front unless an element of the stack is
  one.\<close>

definition insert_substrate :: "item list \<Rightarrow> item list" where
  "insert_substrate layer_stack =
     (if \<not> list_ex (\<lambda>l. lower (get_Material l) = ''substrate'') layer_stack
      then Single substrate_layer # layer_stack else layer_stack)"

definition parse_epi_file_with_loops :: "string list \<Rightarrow> lay_data \<Rightarrow> py_error + item list" where
  "parse_epi_file_with_loops file lay =
     (case epi_loop file lay [] of Inl e \<Rightarrow> Inl e | Inr st \<Rightarrow> Inr (insert_substrate st))"

subsection \<open>\<^verbatim>\<open>flatten_layers\<close>\<close>

text \<open>The copy of a layer of a group, lines 118 to 121: the repeat count is set, then
  the thickness is multiplied, then the time.\<close>

definition aggregate :: "int \<Rightarrow> layer \<Rightarrow> py_error + layer" where
  "aggregate n l =
     (case number_mul_int (Thickness_nm l) n of
        Inl e \<Rightarrow> Inl e
      | Inr th \<Rightarrow>
          (case number_mul_int (Time_s l) n of
             Inl e \<Rightarrow> Inl e
           | Inr tm \<Rightarrow> Inr (l\<lparr>Repeat := Some n, Thickness_nm := th, Time_s := tm\<rparr>)))"

fun aggregate_all :: "int \<Rightarrow> layer list \<Rightarrow> py_error + layer list" where
  "aggregate_all n [] = Inr []"
| "aggregate_all n (l # ls) =
     (case aggregate n l of
        Inl e \<Rightarrow> Inl e
      | Inr l_copy \<Rightarrow>
          (case aggregate_all n ls of Inl e \<Rightarrow> Inl e | Inr flat \<Rightarrow> Inr (l_copy # flat)))"

fun flatten_layers :: "item list \<Rightarrow> py_error + layer list" where
  "flatten_layers [] = Inr []"
| "flatten_layers (Group n ls # items) =
     (case aggregate_all n ls of
        Inl e \<Rightarrow> Inl e
      | Inr copies \<Rightarrow>
          (case flatten_layers items of Inl e \<Rightarrow> Inl e | Inr flat \<Rightarrow> Inr (copies @ flat)))"
| "flatten_layers (Single l # items) =
     (case flatten_layers items of Inl e \<Rightarrow> Inl e | Inr flat \<Rightarrow> Inr (l # flat))"

text \<open>\<^verbatim>\<open>l.get("Repeat", 1)\<close>, as \<^verbatim>\<open>print_layer_table\<close> and
  \<^verbatim>\<open>plot_layer_structure\<close> read the repeat count.\<close>

definition get_Repeat :: "layer \<Rightarrow> int" where
  "get_Repeat l = (case Repeat l of None \<Rightarrow> 1 | Some n \<Rightarrow> n)"

subsection \<open>The variant without loops: \<^verbatim>\<open>parse_epi_file\<close>\<close>

text \<open>\<^verbatim>\<open>(Al\d+GaAs|In\d+GaAs)\<close>, the pattern of this variant.\<close>

fun graded_search :: "string \<Rightarrow> string option" where
  "graded_search [] = None"
| "graded_search (x # xs) =
     (case graded_at ''Al'' (x # xs) of Some m \<Rightarrow> Some m | None \<Rightarrow>
      (case graded_at ''In'' (x # xs) of Some m \<Rightarrow> Some m | None \<Rightarrow> graded_search xs))"

text \<open>The loop of \<^verbatim>\<open>parse_epi_file\<close> in \<^verbatim>\<open>MBE_with rate_No Ramp.py\<close>, on the state
  (\<^verbatim>\<open>layer_stack\<close>, lines printed). What it returns on each path is \<open>Inr\<close> of the
  new state; \<^verbatim>\<open>continue\<close> leaves the stack as it is.\<close>

definition epi_step :: "lay_data \<Rightarrow> layer list \<times> string list \<Rightarrow> string
    \<Rightarrow> py_error + layer list \<times> string list" where
  "epi_step lay st raw =
     (let layer_stack = fst st; out = snd st; line = strip raw in
      if startswith line ''layer('' then
        (case layer_match line of
           None \<Rightarrow> Inr st
         | Some (material, value, unit, comment) \<Rightarrow>
             (let composition =
                    (case graded_search comment of Some m \<Rightarrow> m | None \<Rightarrow> ''Unknown'') in
              case py_float value of
                None \<Rightarrow> Inl ValueError
              | Some v \<Rightarrow>
                  if material = ''shutterzu'' then
                    Inr (layer_stack @ [\<lparr>Material = ''Idle'', Composition = ''None'',
                           Thickness_nm = PyInt 0,
                           Time_s = (if unit = ''s'' then PyFloat v else PyInt 0),
                           Shutters = ShutterList [], Repeat = None,
                           Growth_Rate = Some (PyInt 0)\<rparr>], out)
                  else
                    (case lay material of
                       None \<Rightarrow>
                         Inr (layer_stack, out @ [''Warning: '' @ material @ '' not in .lay file.''])
                     | Some e \<Rightarrow>
                         if unit = ''s'' then
                           (case rate e of
                              None \<Rightarrow> Inl TypeError
                            | Some r \<Rightarrow>
                                (case float_div (float_mul r v) (Finite 3600) of
                                   Inl err \<Rightarrow> Inl err
                                 | Inr thickness_nm \<Rightarrow>
                                     Inr (layer_stack @ [\<lparr>Material = material,
                                            Composition = composition,
                                            Thickness_nm = PyFloat (round2 thickness_nm),
                                            Time_s = PyFloat (round2 v),
                                            Shutters = ShutterStr (join '', '' (shutters e)),
                                            Repeat = None,
                                            Growth_Rate = Some (PyFloat r)\<rparr>], out)))
                         else if unit = ''nm'' then
                           (case rate e of
                              None \<Rightarrow> Inl TypeError
                            | Some r \<Rightarrow>
                                (case float_div (float_mul v (Finite 3600)) r of
                                   Inl err \<Rightarrow> Inl err
                                 | Inr time_s \<Rightarrow>
                                     Inr (layer_stack @ [\<lparr>Material = material,
                                            Composition = composition,
                                            Thickness_nm = PyFloat (round2 v),
                                            Time_s = PyFloat (round2 time_s),
                                            Shutters = ShutterStr (join '', '' (shutters e)),
                                            Repeat = None,
                                            Growth_Rate = Some (PyFloat r)\<rparr>], out)))
                         else Inr st)))
      else Inr st)"

fun epi_steps :: "lay_data \<Rightarrow> layer list \<times> string list \<Rightarrow> string list
    \<Rightarrow> py_error + layer list \<times> string list" where
  "epi_steps lay st [] = Inr st"
| "epi_steps lay st (l # ls) =
     (case epi_step lay st l of Inl e \<Rightarrow> Inl e | Inr st' \<Rightarrow> epi_steps lay st' ls)"

definition parse_epi_file :: "string list \<Rightarrow> lay_data \<Rightarrow> py_error + layer list \<times> string list" where
  "parse_epi_file file lay = epi_steps lay ([], []) file"

subsection \<open>The run of the script\<close>

text \<open>Lines 161 to 163: the definitions file is parsed, then the program file with the
  table obtained, and the stack is flattened for the table and the plot.\<close>

definition example_run :: "string list \<Rightarrow> string list \<Rightarrow> py_error + layer list" where
  "example_run lay_file epi_file =
     (case parse_lay_file lay_file of
        Inl e \<Rightarrow> Inl e
      | Inr lay_data \<Rightarrow>
          (case parse_epi_file_with_loops epi_file lay_data of
             Inl e \<Rightarrow> Inl e
           | Inr layer_stack \<Rightarrow> flatten_layers layer_stack))"

section \<open>Properties\<close>

subsection \<open>Idle periods\<close>

text \<open>
  Claim C7. A layer resolved from a line whose material is the idle sentinel
  \<^verbatim>\<open>shutterzu\<close> has material "Idle", thickness 0, growth rate 0, composition "None"
  and an empty shutter list, whatever the definitions table holds, and keeps these values
  when a loop aggregates it, which it does for every count within the range of the
  floats. The line \<^verbatim>\<open>layer(shutterzu,30s)\<close> resolves, with any table, to such a
  layer with time 30.
\<close>

theorem idle_layer_invariant:
  assumes "layer_match line = Some (''shutterzu'', v, u, c)"
    and "parse_layer_line line lay = Inr (Some l)"
  shows "Material l = ''Idle'' \<and> Thickness_nm l = PyInt 0 \<and> Growth_Rate l = Some (PyInt 0)
      \<and> Composition l = ''None'' \<and> Shutters l = ShutterList []
      \<and> (\<forall>l'. aggregate n l = Inr l' \<longrightarrow>
            Material l' = ''Idle'' \<and> Thickness_nm l' = PyInt 0
            \<and> Growth_Rate l' = Some (PyInt 0) \<and> Composition l' = ''None''
            \<and> Shutters l' = ShutterList [])
      \<and> (fl (of_int n) \<noteq> Inf \<longrightarrow> (\<exists>l'. aggregate n l = Inr l'))
      \<and> parse_layer_line ''layer(shutterzu,30s)'' lay' =
          Inr (Some \<lparr>Material = ''Idle'', Composition = ''None'', Thickness_nm = PyInt 0,
                 Time_s = PyFloat (Finite 30), Shutters = ShutterList [], Repeat = None,
                 Growth_Rate = Some (PyInt 0)\<rparr>)"
proof -
  have m: "layer_match ''layer(shutterzu,30s)'' = Some (''shutterzu'', ''30'', ''s'', [])"
    by code_simp
  have f: "py_float ''30'' = Some (Finite 30)"
    by code_simp
  have 1: "parse_layer_line ''layer(shutterzu,30s)'' lay' =
          Inr (Some \<lparr>Material = ''Idle'', Composition = ''None'', Thickness_nm = PyInt 0,
                 Time_s = PyFloat (Finite 30), Shutters = ShutterList [], Repeat = None,
                 Growth_Rate = Some (PyInt 0)\<rparr>)"
    by (simp add: parse_layer_line_def m f resolve_layer_def)
  from assms obtain x where l:
    "l = \<lparr>Material = ''Idle'', Composition = ''None'', Thickness_nm = PyInt 0,
          Time_s = (if u = ''s'' then PyFloat x else PyInt 0), Shutters = ShutterList [],
          Repeat = None, Growth_Rate = Some (PyInt 0)\<rparr>"
    by (auto simp: parse_layer_line_def resolve_layer_def split: option.splits)
  have 2: "\<forall>l'. aggregate n l = Inr l' \<longrightarrow>
            Material l' = ''Idle'' \<and> Thickness_nm l' = PyInt 0
            \<and> Growth_Rate l' = Some (PyInt 0) \<and> Composition l' = ''None''
            \<and> Shutters l' = ShutterList []"
    by (auto simp: l aggregate_def split: sum.splits pyfloat.splits)
  have 3: "fl (of_int n) \<noteq> Inf \<longrightarrow> (\<exists>l'. aggregate n l = Inr l')"
    by (auto simp: l aggregate_def split: sum.splits pyfloat.splits)
  from 1 2 3 show ?thesis
    by (simp add: l)
qed

theorem idle_layer_invariant_witness:
  "layer_match ''layer(shutterzu,30s)'' = Some (''shutterzu'', ''30'', ''s'', [])
   \<and> parse_layer_line ''layer(shutterzu,30s)'' Map.empty =
       Inr (Some \<lparr>Material = ''Idle'', Composition = ''None'', Thickness_nm = PyInt 0,
              Time_s = PyFloat (Finite 30), Shutters = ShutterList [], Repeat = None,
              Growth_Rate = Some (PyInt 0)\<rparr>)
   \<and> aggregate 4 \<lparr>Material = ''Idle'', Composition = ''None'', Thickness_nm = PyInt 0,
              Time_s = PyFloat (Finite 30), Shutters = ShutterList [], Repeat = None,
              Growth_Rate = Some (PyInt 0)\<rparr> =
       Inr \<lparr>Material = ''Idle'', Composition = ''None'', Thickness_nm = PyInt 0,
              Time_s = PyFloat (Finite 120), Shutters = ShutterList [], Repeat = Some 4,
              Growth_Rate = Some (PyInt 0)\<rparr>"
proof -
  have m: "layer_match ''layer(shutterzu,30s)'' = Some (''shutterzu'', ''30'', ''s'', [])"
    by code_simp
  have p: "parse_layer_line ''layer(shutterzu,30s)'' Map.empty =
       Inr (Some \<lparr>Material = ''Idle'', Composition = ''None'', Thickness_nm = PyInt 0,
              Time_s = PyFloat (Finite 30), Shutters = ShutterList [], Repeat = None,
              Growth_Rate = Some (PyInt 0)\<rparr>)"
    by code_simp
  have a: "aggregate 4 \<lparr>Material = ''Idle'', Composition = ''None'', Thickness_nm = PyInt 0,
              Time_s = PyFloat (Finite 30), Shutters = ShutterList [], Repeat = None,
              Growth_Rate = Some (PyInt 0)\<rparr> =
       Inr \<lparr>Material = ''Idle'', Composition = ''None'', Thickness_nm = PyInt 0,
              Time_s = PyFloat (Finite 120), Shutters = ShutterList [], Repeat = Some 4,
              Growth_Rate = Some (PyInt 0)\<rparr>"
    by code_simp
  from idle_layer_invariant [OF m p, of 4] m p a show ?thesis
    by simp
qed

subsection \<open>Helper facts\<close>

lemma startswith_first:
  "startswith s (a # p) \<Longrightarrow> startswith s (b # q) \<Longrightarrow> a = b"
  by (cases s) (auto simp: startswith_def)



lemma lower_substrate: "lower (Material substrate_layer) = ''substrate''"
  by code_simp

lemma lay_loop_append:
  "lay_loop st (xs @ ys) = (case lay_loop st xs of Inl e \<Rightarrow> Inl e | Inr st' \<Rightarrow> lay_loop st' ys)"
  by (induction xs arbitrary: st) (auto split: sum.splits)

subsection \<open>The GaAs buffer scenario\<close>

text \<open>
  Claim C1 as stated does not hold: for the definitions \<^verbatim>\<open>definelayer(GaAs)\<close>,
  \<^verbatim>\<open>rate(600)\<close>, \<^verbatim>\<open>open(As,Ga)\<close>, \<^verbatim>\<open>enddefine\<close> and the program line
  \<^verbatim>\<open>layer(GaAs,120s) // GaAs buffer\<close> the run does not give a single layer with
  composition "Unknown": the stack has two layers, with compositions "" and "GaAs".
\<close>

theorem gaas_buffer_counterexample:
  "\<not> (\<exists>l. example_run [''definelayer(GaAs)'', ''rate(600)'', ''open(As,Ga)'', ''enddefine'']
             [''layer(GaAs,120s) // GaAs buffer''] = Inr [l]
           \<and> Material l = ''GaAs'' \<and> Thickness_nm l = PyFloat (Finite 20)
           \<and> Time_s l = PyFloat (Finite 120)
           \<and> Composition l = ''Unknown'')
   \<and> map_sum id (map Composition)
        (example_run [''definelayer(GaAs)'', ''rate(600)'', ''open(As,Ga)'', ''enddefine'']
             [''layer(GaAs,120s) // GaAs buffer'']) = Inr [[], ''GaAs'']"
proof -
  have "example_run [''definelayer(GaAs)'', ''rate(600)'', ''open(As,Ga)'', ''enddefine'']
       [''layer(GaAs,120s) // GaAs buffer''] =
     Inr [substrate_layer,
          \<lparr>Material = ''GaAs'', Composition = ''GaAs'', Thickness_nm = PyFloat (Finite 20),
             Time_s = PyFloat (Finite 120),
             Shutters = ShutterStr ''As, Ga'', Repeat = Some 1, Growth_Rate = None\<rparr>]"
    by code_simp
  then show ?thesis
    by (simp add: substrate_layer_def)
qed

text \<open>
  Claim C1, amended. For that definitions file and that program the run gives the
  synthetic substrate followed by exactly one growth layer, with material "GaAs",
  thickness 20, time 120, the shutters [As, Ga] joined into the string "As, Ga", repeat
  count 1 and composition "GaAs": the comment contains \<^verbatim>\<open>GaAs\<close>, which the
  composition pattern of \<^verbatim>\<open>parse_layer_line\<close> matches.
\<close>

theorem gaas_buffer_scenario:
  "example_run [''definelayer(GaAs)'', ''rate(600)'', ''open(As,Ga)'', ''enddefine'']
       [''layer(GaAs,120s) // GaAs buffer''] =
     Inr [substrate_layer,
          \<lparr>Material = ''GaAs'', Composition = ''GaAs'', Thickness_nm = PyFloat (Finite 20),
             Time_s = PyFloat (Finite 120),
             Shutters = ShutterStr ''As, Ga'', Repeat = Some 1, Growth_Rate = None\<rparr>]"
  by code_simp

subsection \<open>Undefined materials\<close>

text \<open>
  Claim C2 at a failing input. A program whose second line names the material
  \<^verbatim>\<open>AlAs\<close>, absent from the table, does not lose that instruction only:
  \<^verbatim>\<open>lay_data[material]\<close> raises \<^verbatim>\<open>KeyError\<close> in \<^verbatim>\<open>parse_layer_line\<close> and
  the whole parse of \<^verbatim>\<open>parse_epi_file_with_loops\<close> ends with it, with an empty table
  as with the GaAs table.
\<close>

theorem undefined_material_raises:
  "parse_epi_file_with_loops [''layer(shutterzu,30s)'', ''layer(AlAs,10nm)''] Map.empty
     = Inl KeyError
   \<and> example_run [''definelayer(GaAs)'', ''rate(600)'', ''open(As,Ga)'', ''enddefine'']
       [''layer(GaAs,120s)'', ''layer(AlAs,10nm)''] = Inl KeyError"
  by code_simp

text \<open>The variant \<^verbatim>\<open>parse_epi_file\<close> tests \<^verbatim>\<open>material not in lay_data\<close> first: the
  instruction is dropped, a warning is printed and the loop goes on.\<close>

lemma epi_step_undefined:
  assumes "startswith (strip raw) ''layer(''"
    and "layer_match (strip raw) = Some (m, v, u, c)"
    and "py_float v = Some x"
    and "m \<noteq> ''shutterzu''"
    and "lay m = None"
  shows "epi_step lay (stack, out) raw =
           Inr (stack, out @ [''Warning: '' @ m @ '' not in .lay file.''])"
  using assms by (simp add: epi_step_def Let_def)

lemma parse_epi_file_undefined_example:
  "parse_epi_file [''layer(shutterzu,30s)'', ''layer(AlAs,10nm)''] Map.empty =
     Inr ([\<lparr>Material = ''Idle'', Composition = ''None'', Thickness_nm = PyInt 0,
                     Time_s = PyFloat (Finite 30),
             Shutters = ShutterList [], Repeat = None, Growth_Rate = Some (PyInt 0)\<rparr>],
          [''Warning: AlAs not in .lay file.''])"
  by code_simp

subsection \<open>Missing or zero rates\<close>





subsection \<open>The synthetic substrate\<close>

text \<open>
  Claim C4 at a failing input. A program whose only \<^verbatim>\<open>Substrate\<close> layer is inside
  a repeated block still gets the synthetic substrate in front: the test
  \<^verbatim>\<open>l.get("Material", "")\<close> reads the dictionary of the block, which has no
  material. The composition of the synthetic layer is the empty string, not "None".
\<close>

theorem substrate_in_loop_counterexample:
  "example_run [''definelayer(Substrate)'', ''rate(3600)'', ''enddefine'']
      [''for(i,2,0.0)'', ''layer(Substrate,10nm)'', ''next(i)''] =
    Inr [substrate_layer,
         \<lparr>Material = ''Substrate'', Composition = ''Unknown'', Thickness_nm = PyFloat (Finite 20),
            Time_s = PyFloat (Finite 20),
            Shutters = ShutterStr [], Repeat = Some 2, Growth_Rate = None\<rparr>]
   \<and> Composition substrate_layer \<noteq> ''None''"
  by code_simp

text \<open>
  Claim C4, amended. The synthetic substrate is put in front exactly when no element of
  the stack outside the repeated blocks has a material equal to "substrate" without
  regard to case; a second insertion changes nothing; the synthetic layer has material
  "Substrate", thickness 500, time 0, the empty string as composition and as shutters,
  and repeat count 1.
\<close>

theorem substrate_insertion:
  "insert_substrate st =
     (if \<exists>l. Single l \<in> set st \<and> lower (Material l) = ''substrate'' then st
      else Single substrate_layer # st)
   \<and> insert_substrate (insert_substrate st) = insert_substrate st
   \<and> Material substrate_layer = ''Substrate'' \<and> Thickness_nm substrate_layer = PyInt 500
   \<and> Time_s substrate_layer = PyInt 0 \<and> Composition substrate_layer = []
   \<and> Shutters substrate_layer = ShutterStr [] \<and> Repeat substrate_layer = Some 1"
proof -
  have "list_ex (\<lambda>l. lower (get_Material l) = ''substrate'') st
     \<longleftrightarrow> (\<exists>l. Single l \<in> set st \<and> lower (Material l) = ''substrate'')"
  proof (induction st)
    case Nil
    then show ?case by simp
  next
    case (Cons a st)
    then show ?case by (cases a) (auto simp: lower_def)
  qed
  then have a: "insert_substrate st =
     (if \<exists>l. Single l \<in> set st \<and> lower (Material l) = ''substrate'' then st
      else Single substrate_layer # st)"
    by (simp add: insert_substrate_def)
  have b: "insert_substrate (insert_substrate st) = insert_substrate st"
    by (simp add: insert_substrate_def lower_substrate)
  from a b show ?thesis
    by (simp add: substrate_layer_def)
qed

theorem substrate_insertion_witness:
  "insert_substrate [Group 2 [substrate_layer]] = [Single substrate_layer, Group 2 [substrate_layer]]
   \<and> insert_substrate [Single substrate_layer] = [Single substrate_layer]"
  using substrate_insertion [of "[Group 2 [substrate_layer]]"]
    substrate_insertion [of "[Single substrate_layer]"] lower_substrate
  by simp

subsection \<open>A loop that is never closed\<close>




subsection \<open>A rate line whose value is not a number\<close>

text \<open>
  Claim C9 at failing inputs. Inside a definition block the line
  \<^verbatim>\<open>rate(1.2.3)\<close> makes \<^verbatim>\<open>float\<close> raise \<^verbatim>\<open>ValueError\<close>, and the line
  \<^verbatim>\<open>rate(fast)\<close> makes \<^verbatim>\<open>re.search\<close> return \<^verbatim>\<open>None\<close>, whose
  \<^verbatim>\<open>group\<close> raises \<^verbatim>\<open>AttributeError\<close>: \<^verbatim>\<open>parse_lay_file\<close> ends with the
  exception and returns no table.
\<close>

theorem bad_rate_counterexample:
  "map_sum id (\<lambda>t. t ''X'')
     (parse_lay_file [''definelayer(X)'', ''rate(1.2.3)'', ''open(A)'', ''enddefine''])
     = Inl ValueError
   \<and> map_sum id (\<lambda>t. t ''X'')
     (parse_lay_file [''definelayer(X)'', ''rate(fast)'', ''open(A)'', ''enddefine''])
     = Inl AttributeError"
  by code_simp

text \<open>
  Claim C9, amended. When the lines before it leave a definition block open, a rate line
  whose value is not matched by the pattern, or is matched and not read by
  \<^verbatim>\<open>float\<close>, ends \<^verbatim>\<open>parse_lay_file\<close> with \<^verbatim>\<open>AttributeError\<close> in the
  first case and \<^verbatim>\<open>ValueError\<close> in the second, whatever lines follow.
\<close>

theorem bad_rate_raises:
  assumes "lay_loop (Map.empty, None) pre = Inr (layers, cur)"
    and "truthy cur"
    and "startswith (strip raw) ''rate(''"
    and "case rate_search (strip raw) of None \<Rightarrow> True | Some v \<Rightarrow> py_float v = None"
  shows "parse_lay_file (pre @ raw # post) =
           Inl (if rate_search (strip raw) = None then AttributeError else ValueError)"
proof -
  have nd: "\<not> startswith (strip raw) ''definelayer(''"
    using startswith_first [OF assms(3), of "CHR ''d''" "''efinelayer(''"] by auto
  have "lay_step (layers, cur) raw =
          Inl (if rate_search (strip raw) = None then AttributeError else ValueError)"
    using assms(2-4) nd by (auto simp: lay_step_def Let_def split: option.splits)
  then show ?thesis
    using assms(1) by (simp add: parse_lay_file_def lay_loop_append)
qed

theorem bad_rate_raises_witness:
  "parse_lay_file [''definelayer(X)'', ''rate(1.2.3)'', ''open(A)'', ''enddefine'']
     = Inl ValueError"
proof -
  have s: "strip ''definelayer(X)'' = ''definelayer(X)''" by code_simp
  have sw: "startswith ''definelayer(X)'' ''definelayer(''" by code_simp
  have dn: "definelayer_name ''definelayer(X)'' = Inr ''X''" by code_simp
  have "lay_step (Map.empty, None) ''definelayer(X)'' =
      Inr ([''X'' \<mapsto> \<lparr>shutters = [], rate = None\<rparr>], Some ''X'')"
    unfolding lay_step_def Let_def by (simp add: s sw dn)
  then have 1: "lay_loop (Map.empty, None) [''definelayer(X)''] =
      Inr ([''X'' \<mapsto> \<lparr>shutters = [], rate = None\<rparr>], Some ''X'')"
    by simp
  have 2: "truthy (Some ''X'')" by code_simp
  have 3: "startswith (strip ''rate(1.2.3)'') ''rate(''" by code_simp
  have r: "rate_search (strip ''rate(1.2.3)'') = Some ''1.2.3''" by code_simp
  have f: "py_float ''1.2.3'' = None" by code_simp
  have 4: "case rate_search (strip ''rate(1.2.3)'') of None \<Rightarrow> True
           | Some v \<Rightarrow> py_float v = None"
    by (simp add: r f)
  from bad_rate_raises [OF 1 2 3 4, of "[''open(A)'', ''enddefine'']"] r
  show ?thesis by simp
qed

subsection \<open>Two definition blocks for one material\<close>

text \<open>What one line does to the state of the loop of \<^verbatim>\<open>parse_lay_file\<close>, by the
  kind of the line.\<close>

lemma lay_step_define:
  assumes "startswith (strip d) ''definelayer(''" and "definelayer_name (strip d) = Inr c"
  shows "lay_step (L, cur) d = Inr (L(c \<mapsto> \<lparr>shutters = [], rate = None\<rparr>), Some c)"
  using assms by (simp add: lay_step_def)

lemma lay_step_rate:
  assumes "startswith (strip rl) ''rate(''" and "rate_search (strip rl) = Some v"
    and "py_float v = Some r" and "c \<noteq> []" and "L c = Some e"
  shows "lay_step (L, Some c) rl = Inr (L(c \<mapsto> e\<lparr>rate := Some r\<rparr>), Some c)"
proof -
  have "\<not> startswith (strip rl) ''definelayer(''"
    using startswith_first [OF assms(1), of "CHR ''d''" "''efinelayer(''"] by auto
  then show ?thesis
    using assms by (simp add: lay_step_def truthy_def)
qed

lemma lay_step_open:
  assumes "startswith (strip ol) ''open(''" and "c \<noteq> []" and "L c = Some e"
  shows "lay_step (L, Some c) ol =
           Inr (L(c \<mapsto> e\<lparr>shutters := drop 1 (findall_word [] (strip ol))\<rparr>), Some c)"
proof -
  have "\<not> startswith (strip ol) ''definelayer(''"
    using startswith_first [OF assms(1), of "CHR ''d''" "''efinelayer(''"] by auto
  moreover have "\<not> startswith (strip ol) ''rate(''"
    using startswith_first [OF assms(1), of "CHR ''r''" "''ate(''"] by auto
  ultimately show ?thesis
    using assms by (simp add: lay_step_def truthy_def)
qed

lemma lay_step_enddefine:
  assumes "startswith (strip el) ''enddefine''"
  shows "lay_step (L, cur) el = Inr (L, None)"
proof -
  have "\<not> startswith (strip el) ''definelayer(''"
    using startswith_first [OF assms(1), of "CHR ''d''" "''efinelayer(''"] by auto
  moreover have "\<not> startswith (strip el) ''rate(''"
    using startswith_first [OF assms(1), of "CHR ''r''" "''ate(''"] by auto
  moreover have "\<not> startswith (strip el) ''open(''"
    using startswith_first [OF assms(1), of "CHR ''o''" "''pen(''"] by auto
  ultimately show ?thesis
    using assms by (simp add: lay_step_def)
qed

text \<open>A line that does not define \<open>c\<close>, read while \<open>c\<close> is not the current layer,
  leaves the entry of \<open>c\<close> as it is.\<close>

lemma lay_step_keep:
  assumes "cur \<noteq> Some c"
    and "startswith (strip l) ''definelayer('' \<longrightarrow> definelayer_name (strip l) \<noteq> Inr c"
    and "lay_step (L, cur) l = Inr (L', cur')"
  shows "L' c = L c \<and> cur' \<noteq> Some c"
  using assms
  by (cases cur)
    (auto simp: lay_step_def Let_def truthy_def split: if_splits sum.splits option.splits)

lemma lay_loop_keep:
  assumes "cur \<noteq> Some c"
    and "\<forall>l \<in> set ls. startswith (strip l) ''definelayer('' \<longrightarrow> definelayer_name (strip l) \<noteq> Inr c"
    and "lay_loop (L, cur) ls = Inr s"
  shows "fst s c = L c"
  using assms
proof (induction ls arbitrary: L cur)
  case Nil
  then show ?case by auto
next
  case (Cons l ls)
  from Cons.prems(3) obtain L' cur' where 1: "lay_step (L, cur) l = Inr (L', cur')"
    and 2: "lay_loop (L', cur') ls = Inr s"
    by (cases "lay_step (L, cur) l") auto
  from Cons.prems(2) have
    d: "startswith (strip l) ''definelayer('' \<longrightarrow> definelayer_name (strip l) \<noteq> Inr c"
    and r: "\<forall>l \<in> set ls. startswith (strip l) ''definelayer(''
            \<longrightarrow> definelayer_name (strip l) \<noteq> Inr c"
    by auto
  from lay_step_keep [OF Cons.prems(1) d 1] have 3: "L' c = L c" and 4: "cur' \<noteq> Some c"
    by auto
  from Cons.IH [OF 4 r 2] 3 show ?case by simp
qed

text \<open>Outside a block, lines other than \<^verbatim>\<open>definelayer\<close> lines change nothing.\<close>

lemma lay_loop_outside:
  assumes "list_all (\<lambda>l. \<not> startswith (strip l) ''definelayer('') ls"
  shows "lay_loop (L, None) ls = Inr (L, None)"
  using assms
  by (induction ls) (auto simp: lay_step_def Let_def truthy_def)

text \<open>Two runs of the loop of \<^verbatim>\<open>parse_lay_file\<close> from the same current layer, the
  table of one contained in the table of the other, and the current layer defined in the
  smaller table: they raise the same exception or end with the same current layer and
  tables that are still contained in one another.\<close>

lemma lay_step_agree:
  assumes "L2 \<subseteq>\<^sub>m L1" and "\<forall>k. cur = Some k \<longrightarrow> k \<in> dom L2"
  shows "case lay_step (L2, cur) raw of
           Inl e \<Rightarrow> lay_step (L1, cur) raw = Inl e
         | Inr s2 \<Rightarrow> \<exists>L1'. lay_step (L1, cur) raw = Inr (L1', snd s2) \<and> fst s2 \<subseteq>\<^sub>m L1'
               \<and> dom L2 \<subseteq> dom (fst s2)
               \<and> (\<forall>k. snd s2 = Some k \<longrightarrow> k \<in> dom (fst s2))"
proof (cases cur)
  case None
  then show ?thesis
    using assms(1)
    by (auto simp: lay_step_def Let_def truthy_def map_le_def dom_def
        split: sum.splits option.splits)
next
  case (Some k)
  then obtain e where e2: "L2 k = Some e"
    using assms(2) by auto
  then have e1: "L1 k = Some e"
    using assms(1) by (auto simp: map_le_def dom_def)
  show ?thesis
    using assms(1) Some e1 e2
    by (auto simp: lay_step_def Let_def truthy_def map_le_def dom_def
        split: sum.splits option.splits)
qed

lemma lay_loop_agree:
  assumes "L2 \<subseteq>\<^sub>m L1" and "\<forall>k. cur = Some k \<longrightarrow> k \<in> dom L2"
  shows "case lay_loop (L2, cur) ls of
           Inl e \<Rightarrow> lay_loop (L1, cur) ls = Inl e
         | Inr s2 \<Rightarrow> \<exists>L1'. lay_loop (L1, cur) ls = Inr (L1', snd s2) \<and> fst s2 \<subseteq>\<^sub>m L1'
               \<and> dom L2 \<subseteq> dom (fst s2)"
  using assms
proof (induction ls arbitrary: L1 L2 cur)
  case Nil
  then show ?case by simp
next
  case (Cons l ls)
  show ?case
  proof (cases "lay_step (L2, cur) l")
    case (Inl e)
    then show ?thesis
      using lay_step_agree [OF Cons.prems, of l] by simp
  next
    case (Inr s2)
    then obtain L1' where 1: "lay_step (L1, cur) l = Inr (L1', snd s2)"
      and 2: "fst s2 \<subseteq>\<^sub>m L1'" and 3: "dom L2 \<subseteq> dom (fst s2)"
      and 4: "\<forall>k. snd s2 = Some k \<longrightarrow> k \<in> dom (fst s2)"
      using lay_step_agree [OF Cons.prems, of l] by auto
    have s2: "s2 = (fst s2, snd s2)" by simp
    show ?thesis
      using Cons.IH [OF 2 4] Inr 1 3
      by (cases "lay_loop (fst s2, snd s2) ls") (auto simp: s2 [symmetric])
  qed
qed

text \<open>
  Claim C10. Let a file have, after lines read without an exception (among them possibly
  an earlier block for \<open>c\<close>), a block for the non-empty name \<open>c\<close> made of a
  \<^verbatim>\<open>definelayer\<close> line, a rate line with the value \<open>r\<close>, an \<^verbatim>\<open>open\<close> line
  and an \<^verbatim>\<open>enddefine\<close> line, the rate line and the \<^verbatim>\<open>open\<close> line in either
  order, and then lines none of which defines \<open>c\<close> again. Whenever the file is read to
  the end, and it is when no \<^verbatim>\<open>definelayer\<close> line follows, the entry of \<open>c\<close> in the
  table is the rate \<open>r\<close> and the shutters of the \<^verbatim>\<open>open\<close> line of that later block.
  Nothing of an earlier block is kept: the file is read as its part from the later
  \<^verbatim>\<open>definelayer\<close> line on is read alone, with the same exception if that part raises
  one and otherwise with the same entry for \<open>c\<close>.
\<close>

theorem last_definition_wins:
  assumes "lay_loop (Map.empty, None) pre = Inr st"
    and "startswith (strip d) ''definelayer(''"
    and "definelayer_name (strip d) = Inr c"
    and "c \<noteq> []"
    and "startswith (strip rl) ''rate(''"
    and "rate_search (strip rl) = Some v"
    and "py_float v = Some r"
    and "startswith (strip ol) ''open(''"
    and "startswith (strip el) ''enddefine''"
    and "\<forall>l \<in> set rest. startswith (strip l) ''definelayer(''
           \<longrightarrow> definelayer_name (strip l) \<noteq> Inr c"
  shows "(\<forall>t. parse_lay_file (pre @ [d, rl, ol, el] @ rest) = Inr t \<longrightarrow>
            t c = Some \<lparr>shutters = drop 1 (findall_word [] (strip ol)), rate = Some r\<rparr>)
     \<and> (\<forall>t. parse_lay_file (pre @ [d, ol, rl, el] @ rest) = Inr t \<longrightarrow>
            t c = Some \<lparr>shutters = drop 1 (findall_word [] (strip ol)), rate = Some r\<rparr>)
     \<and> (list_all (\<lambda>l. \<not> startswith (strip l) ''definelayer('') rest \<longrightarrow>
          (\<exists>t. parse_lay_file (pre @ [d, rl, ol, el] @ rest) = Inr t)
          \<and> (\<exists>t. parse_lay_file (pre @ [d, ol, rl, el] @ rest) = Inr t))
     \<and> (case parse_lay_file (d # others) of
           Inl e \<Rightarrow> parse_lay_file (pre @ d # others) = Inl e
         | Inr t2 \<Rightarrow> \<exists>t1. parse_lay_file (pre @ d # others) = Inr t1
               \<and> t1 c = t2 c \<and> t2 c \<noteq> None \<and> t2 \<subseteq>\<^sub>m t1)"
proof -
  define fresh where "fresh = \<lparr>shutters = [], rate = None :: pyfloat option\<rparr>"
  define E where "E = \<lparr>shutters = drop 1 (findall_word [] (strip ol)), rate = Some r\<rparr>"
  define L0 where "L0 = (fst st)(c \<mapsto> fresh)"
  have st: "st = (fst st, snd st)" by simp
  have sd: "lay_step st d = Inr (L0, Some c)"
    using lay_step_define [OF assms(2,3), of "fst st" "snd st"] by (simp add: L0_def fresh_def)
  have r1: "lay_step (L0, Some c) rl = Inr (L0(c \<mapsto> fresh\<lparr>rate := Some r\<rparr>), Some c)"
    by (rule lay_step_rate [OF assms(5,6,7,4)]) (simp add: L0_def)
  have o1: "lay_step (L0(c \<mapsto> fresh\<lparr>rate := Some r\<rparr>), Some c) ol = Inr (L0(c \<mapsto> E), Some c)"
    using lay_step_open [OF assms(8,4), of "L0(c \<mapsto> fresh\<lparr>rate := Some r\<rparr>)"
        "fresh\<lparr>rate := Some r\<rparr>"]
    by (simp add: E_def fresh_def)
  have o2: "lay_step (L0, Some c) ol =
      Inr (L0(c \<mapsto> fresh\<lparr>shutters := drop 1 (findall_word [] (strip ol))\<rparr>), Some c)"
    by (rule lay_step_open [OF assms(8,4)]) (simp add: L0_def)
  have r2: "lay_step (L0(c \<mapsto> fresh\<lparr>shutters := drop 1 (findall_word [] (strip ol))\<rparr>), Some c) rl
      = Inr (L0(c \<mapsto> E), Some c)"
    using lay_step_rate [OF assms(5,6,7,4),
        of "L0(c \<mapsto> fresh\<lparr>shutters := drop 1 (findall_word [] (strip ol))\<rparr>)"
        "fresh\<lparr>shutters := drop 1 (findall_word [] (strip ol))\<rparr>"]
    by (simp add: E_def fresh_def)
  have e1: "lay_step (L0(c \<mapsto> E), Some c) el = Inr (L0(c \<mapsto> E), None)"
    by (rule lay_step_enddefine [OF assms(9)])
  have b1: "lay_loop (Map.empty, None) (pre @ [d, rl, ol, el] @ rest) =
      lay_loop (L0(c \<mapsto> E), None) rest"
    using assms(1) sd r1 o1 e1 by (simp add: lay_loop_append)
  have b2: "lay_loop (Map.empty, None) (pre @ [d, ol, rl, el] @ rest) =
      lay_loop (L0(c \<mapsto> E), None) rest"
    using assms(1) sd o2 r2 e1 by (simp add: lay_loop_append)
  have keep: "fst s c = Some E" if "lay_loop (L0(c \<mapsto> E), None) rest = Inr s" for s
    using lay_loop_keep [OF _ assms(10) that] by simp
  have A: "\<forall>t. parse_lay_file (pre @ [d, rl, ol, el] @ rest) = Inr t \<longrightarrow> t c = Some E"
    unfolding parse_lay_file_def b1 by (auto split: sum.splits dest: keep)
  have B: "\<forall>t. parse_lay_file (pre @ [d, ol, rl, el] @ rest) = Inr t \<longrightarrow> t c = Some E"
    unfolding parse_lay_file_def b2 by (auto split: sum.splits dest: keep)
  have C: "list_all (\<lambda>l. \<not> startswith (strip l) ''definelayer('') rest \<longrightarrow>
          (\<exists>t. parse_lay_file (pre @ [d, rl, ol, el] @ rest) = Inr t)
          \<and> (\<exists>t. parse_lay_file (pre @ [d, ol, rl, el] @ rest) = Inr t)"
    unfolding parse_lay_file_def b1 b2 by (auto simp: lay_loop_outside)
  have s0: "lay_step (Map.empty, None) d = Inr (Map.empty(c \<mapsto> fresh), Some c)"
    using lay_step_define [OF assms(2,3), of Map.empty None] by (simp add: fresh_def)
  have le: "Map.empty(c \<mapsto> fresh) \<subseteq>\<^sub>m L0"
    by (simp add: L0_def map_le_def)
  have cur: "\<forall>k. Some c = Some k \<longrightarrow> k \<in> dom (Map.empty(c \<mapsto> fresh))"
    by simp
  have whole: "lay_loop (Map.empty, None) (pre @ d # others) = lay_loop (L0, Some c) others"
    using assms(1) sd by (simp add: lay_loop_append)
  have alone: "lay_loop (Map.empty, None) (d # others) =
      lay_loop (Map.empty(c \<mapsto> fresh), Some c) others"
    using s0 by simp
  have D: "case parse_lay_file (d # others) of
           Inl e \<Rightarrow> parse_lay_file (pre @ d # others) = Inl e
         | Inr t2 \<Rightarrow> \<exists>t1. parse_lay_file (pre @ d # others) = Inr t1
               \<and> t1 c = t2 c \<and> t2 c \<noteq> None \<and> t2 \<subseteq>\<^sub>m t1"
  proof (cases "lay_loop (Map.empty(c \<mapsto> fresh), Some c) others")
    case (Inl e)
    then show ?thesis
      using lay_loop_agree [OF le cur, of others] whole alone
      by (simp add: parse_lay_file_def)
  next
    case (Inr s2)
    then obtain L1' where 1: "lay_loop (L0, Some c) others = Inr (L1', snd s2)"
      and 2: "fst s2 \<subseteq>\<^sub>m L1'"
      and 3: "dom (Map.empty(c \<mapsto> fresh)) \<subseteq> dom (fst s2)"
      using lay_loop_agree [OF le cur, of others] by auto
    from 3 have c2: "c \<in> dom (fst s2)" by simp
    then have "fst s2 c \<noteq> None" by auto
    moreover have "L1' c = fst s2 c"
      using 2 c2 by (simp add: map_le_def)
    ultimately show ?thesis
      using Inr 1 2 whole alone by (simp add: parse_lay_file_def)
  qed
  from A B C D show ?thesis
    unfolding E_def by blast
qed

theorem last_definition_wins_witness:
  "map_sum id (\<lambda>t. t ''GaAs'')
     (parse_lay_file [''definelayer(GaAs)'', ''rate(1)'', ''open(A)'', ''enddefine'',
        ''definelayer(GaAs)'', ''rate(600)'', ''open(As,Ga)'', ''enddefine'',
        ''definelayer(AlAs)'', ''rate(300)'', ''open(Al,As)'', ''enddefine''])
   = Inr (Some \<lparr>shutters = [''As'', ''Ga''], rate = Some (Finite 600)\<rparr>)"
proof -
  define pre where "pre = [''definelayer(GaAs)'', ''rate(1)'', ''open(A)'', ''enddefine'']"
  define rest where "rest = [''definelayer(AlAs)'', ''rate(300)'', ''open(Al,As)'', ''enddefine'']"
  define st where "st = projr (lay_loop (Map.empty, None) pre)"
  have "\<not> isl (lay_loop (Map.empty, None) pre)"
    unfolding pre_def by code_simp
  then have 1: "lay_loop (Map.empty, None) pre = Inr st"
    unfolding st_def by simp
  have 2: "startswith (strip ''definelayer(GaAs)'') ''definelayer(''" by code_simp
  have 3: "definelayer_name (strip ''definelayer(GaAs)'') = Inr ''GaAs''" by code_simp
  have 4: "''GaAs'' \<noteq> []" by simp
  have 5: "startswith (strip ''rate(600)'') ''rate(''" by code_simp
  have 6: "rate_search (strip ''rate(600)'') = Some ''600''" by code_simp
  have 7: "py_float ''600'' = Some (Finite 600)" by code_simp
  have 8: "startswith (strip ''open(As,Ga)'') ''open(''" by code_simp
  have 9: "startswith (strip ''enddefine'') ''enddefine''" by code_simp
  have "list_all (\<lambda>l. startswith (strip l) ''definelayer(''
           \<longrightarrow> definelayer_name (strip l) \<noteq> Inr ''GaAs'') rest"
    unfolding rest_def by code_simp
  then have 10: "\<forall>l \<in> set rest. startswith (strip l) ''definelayer(''
           \<longrightarrow> definelayer_name (strip l) \<noteq> Inr ''GaAs''"
    by (simp add: list_all_iff)
  have sh: "drop 1 (findall_word [] (strip ''open(As,Ga)'')) = [''As'', ''Ga'']" by code_simp
  have "\<not> isl (parse_lay_file (pre @ [''definelayer(GaAs)'', ''rate(600)'', ''open(As,Ga)'',
      ''enddefine''] @ rest))"
    unfolding pre_def rest_def by code_simp
  then obtain t where t: "parse_lay_file (pre @ [''definelayer(GaAs)'', ''rate(600)'',
      ''open(As,Ga)'', ''enddefine''] @ rest) = Inr t"
    by (cases "parse_lay_file (pre @ [''definelayer(GaAs)'', ''rate(600)'', ''open(As,Ga)'',
      ''enddefine''] @ rest)") auto
  from last_definition_wins [OF 1 2 3 4 5 6 7 8 9 10, of "[]"] t sh
  have "t ''GaAs'' = Some \<lparr>shutters = [''As'', ''Ga''], rate = Some (Finite 600)\<rparr>"
    by simp
  with t show ?thesis
    by (simp add: pre_def rest_def)
qed

end
